theory Spec2Isabelle
  imports Complex_Main
begin

section \<open>Python values\<close>

text \<open>
  The exceptions the methods of \<open>Path\<close> can raise. \<open>LookupError\<close> is the failure of the
  graph handler's batch lookup, which \<open>set_path_edges\<close> propagates. \<open>GeometryError\<close> is
  the exception of Shapely's \<open>LineString\<close> constructor (a \<open>ValueError\<close> in Shapely 1, a
  \<open>GEOSException\<close> in Shapely 2).
\<close>

datatype error =
  ValueError | TypeError | AttributeError | ZeroDivisionError | LookupError | GeometryError

subsection \<open>Floats\<close>

text \<open>
  A Python float is an IEEE 754 binary64 number. A finite one is \<open>Num x\<close>, where \<open>x\<close> is
  the number it stores exactly; \<open>Num 0\<close> is \<open>0.0\<close> and \<open>NegZero\<close> is \<open>-0.0\<close>. The integer
  \<open>0\<close> that \<open>path.py\<close> writes into float attributes is \<open>Num 0\<close> as well (\<open>0 == 0.0\<close>).
\<close>

datatype double = Num real | NegZero | PosInf | NegInf | NaN

definition pow2 :: "int \<Rightarrow> real" where
  "pow2 k = (if 0 \<le> k then 2 ^ nat k else 1 / 2 ^ nat (- k))"

text \<open>The nearest integer, a tie going to the even one.\<close>

definition round_half_even :: "real \<Rightarrow> int" where
  "round_half_even y =
     (let lower = \<lfloor>y\<rfloor>; frac = y - of_int lower
      in if frac < 1 / 2 then lower
         else if 1 / 2 < frac then lower + 1
         else if even lower then lower else lower + 1)"

text \<open>
  The largest \<open>k\<close> with \<open>2 ^ k \<le> \<bar>x\<bar>\<close>, searched by halving steps from \<open>- 1075\<close> upwards
  (it stays at \<open>- 1075\<close> for a smaller \<open>x\<close>, and no sum, product or quotient of two
  doubles reaches the upper end of the search).
\<close>

definition binade :: "real \<Rightarrow> int" where
  "binade x =
     foldl (\<lambda>e step. if pow2 (e + step) \<le> \<bar>x\<bar> then e + step else e) (- 1075)
       [2048, 1024, 512, 256, 128, 64, 32, 16, 8, 4, 2, 1]"

text \<open>
  Rounding a real number to binary64, to nearest with ties to even: 53 significant bits,
  the spacing of the subnormal numbers below \<open>2 ^ (- 1022)\<close>.
\<close>

definition nearest :: "real \<Rightarrow> real" where
  "nearest x =
     (let quantum = pow2 (max (binade x) (- 1022) - 52)
      in of_int (round_half_even (x / quantum)) * quantum)"

text \<open>
  The double for an exact result \<open>x\<close>: overflow gives an infinity, and a result that
  rounds to zero takes the sign the operation prescribes for it.
\<close>

definition to_double :: "bool \<Rightarrow> real \<Rightarrow> double" where
  "to_double negative_zero x =
     (let y = nearest x
      in if pow2 1024 \<le> \<bar>y\<bar> then (if 0 < x then PosInf else NegInf)
         else if y = 0 then (if negative_zero then NegZero else Num 0)
         else Num y)"

text \<open>A decimal float literal such as \<open>6.908\<close>.\<close>

definition float_lit :: "real \<Rightarrow> double" where
  "float_lit x = to_double (x < 0) x"

fun sign_bit :: "double \<Rightarrow> bool" where
  "sign_bit (Num x) = (x < 0)"
| "sign_bit NegZero = True"
| "sign_bit PosInf = False"
| "sign_bit NegInf = True"
| "sign_bit NaN = False"

fun is_inf :: "double \<Rightarrow> bool" where
  "is_inf PosInf = True"
| "is_inf NegInf = True"
| "is_inf _ = False"

fun is_zero :: "double \<Rightarrow> bool" where
  "is_zero (Num x) = (x = 0)"
| "is_zero NegZero = True"
| "is_zero _ = False"

fun exact :: "double \<Rightarrow> real" where
  "exact (Num x) = x"
| "exact _ = 0"

fun fneg :: "double \<Rightarrow> double" where
  "fneg (Num x) = (if x = 0 then NegZero else Num (- x))"
| "fneg NegZero = Num 0"
| "fneg PosInf = NegInf"
| "fneg NegInf = PosInf"
| "fneg NaN = NaN"

text \<open>
  Python's \<open>+\<close>, \<open>-\<close> and \<open>*\<close> on floats: the IEEE operations, which never raise. An exact
  sum of zero is \<open>-0.0\<close> only when both operands are.
\<close>

definition fadd :: "double \<Rightarrow> double \<Rightarrow> double" where
  "fadd a b =
     (if a = NaN \<or> b = NaN then NaN
      else if is_inf a then (if is_inf b \<and> a \<noteq> b then NaN else a)
      else if is_inf b then b
      else to_double (a = NegZero \<and> b = NegZero) (exact a + exact b))"

definition fsub :: "double \<Rightarrow> double \<Rightarrow> double" where
  "fsub a b = fadd a (fneg b)"

definition fmul :: "double \<Rightarrow> double \<Rightarrow> double" where
  "fmul a b =
     (if a = NaN \<or> b = NaN then NaN
      else if is_inf a \<or> is_inf b then
        (if is_zero a \<or> is_zero b then NaN
         else if sign_bit a \<noteq> sign_bit b then NegInf else PosInf)
      else to_double (sign_bit a \<noteq> sign_bit b) (exact a * exact b))"

text \<open>Python's \<open>/\<close> on floats: it raises on a zero divisor, before anything else.\<close>

definition fdiv :: "double \<Rightarrow> double \<Rightarrow> error + double" where
  "fdiv a b =
     (if is_zero b then Inl ZeroDivisionError
      else if a = NaN \<or> b = NaN then Inr NaN
      else if is_inf a then
        Inr (if is_inf b then NaN else if sign_bit a \<noteq> sign_bit b then NegInf else PosInf)
      else if is_inf b then Inr (if sign_bit a \<noteq> sign_bit b then NegZero else Num 0)
      else Inr (to_double (sign_bit a \<noteq> sign_bit b) (exact a / exact b)))"

text \<open>The comparison \<open>x > 0\<close>.\<close>

fun gt_0 :: "double \<Rightarrow> bool" where
  "gt_0 (Num x) = (0 < x)"
| "gt_0 PosInf = True"
| "gt_0 _ = False"

text \<open>
  Python's \<open>round(x, ndigits)\<close> for a float and \<open>ndigits\<close> from \<open>0\<close> to \<open>323\<close>: the stored
  number is rounded exactly to \<open>ndigits\<close> decimals, a tie going to the even decimal, and
  the double nearest to that decimal is returned; the sign is kept, and an infinity or a
  NaN is returned as it is.
\<close>

definition round_decimal :: "real \<Rightarrow> nat \<Rightarrow> real" where
  "round_decimal x ndigits = of_int (round_half_even (x * 10 ^ ndigits)) / 10 ^ ndigits"

fun py_round :: "double \<Rightarrow> nat \<Rightarrow> double" where
  "py_round (Num x) ndigits = to_double (x < 0) (round_decimal x ndigits)"
| "py_round d ndigits = d"

text \<open>
  Python's \<open>sum\<close> (CPython before 3.12): it starts from \<open>0\<close> and adds the items from left
  to right, each addition rounding.
\<close>

definition py_sum :: "double list \<Rightarrow> double" where
  "py_sum xs = foldl fadd (Num 0) xs"

text \<open>
  Python values that end up in the property dictionary of a GeoJSON feature.
\<close>

datatype pyval =
    PNone
  | PBool bool
  | PNum double
  | PStr string
  | PList "pyval list"
  | PDict "(string \<times> pyval) list"

section \<open>Data model of \<open>app/path.py\<close>\<close>

text \<open>
  Modelled from the spec: the declaration of \<open>PathEdge\<close> (\<open>app/types.py\<close>) is
  missing. Following the spec's description of an edge, it carries its identifier,
  a length in each of two metrics, an optional noise-exposure value (a dictionary from
  decibel level to exposed length), an optional air-quality value, the discretized
  air-quality class and noise band (integers), and its vertex coordinates in the native
  and in the geographic reference system. The fields are the attributes that \<open>path.py\<close>
  reads; \<open>id\<close> and \<open>length\<close> carry a suffix because HOL has constants of those names.
\<close>

record PathEdge =
  id_e :: int
  length_e :: double
  length_b_e :: double
  aqi :: "double option"
  aqi_cl :: int
  noises :: "(int \<times> double) list option"
  db_range :: int
  coords :: "(double \<times> double) list"
  coords_wgs :: "(double \<times> double) list"

text \<open>
  Modelled from the spec: the enumeration \<open>PathType\<close> (\<open>app/constants.py\<close>) is
  missing. A member is identified by its \<open>value\<close>, the only thing \<open>path.py\<close> reads.
\<close>

datatype PathType = PathType string

fun value_pt :: "PathType \<Rightarrow> string" where
  "value_pt (PathType v) = v"

text \<open>
  Shapely's \<open>LineString\<close>, as the list of coordinates it was built from. The constructor
  accepts no coordinates (an empty geometry) or at least two, and raises on exactly one.
\<close>

datatype LineString = LineString "(double \<times> double) list"

definition new_LineString :: "(double \<times> double) list \<Rightarrow> error + LineString" where
  "new_LineString coordinates' =
     (if length coordinates' = 1 then Inl GeometryError else Inr (LineString coordinates'))"

text \<open>
  The class \<open>Path\<close>. \<open>'n\<close> and \<open>'a\<close> are the types of the noise and air-quality summary
  objects (\<open>PathNoiseAttrs\<close>, \<open>PathAqiAttrs\<close>), which belong to its
  collaborators. A field that \<open>__init__\<close> sets to \<open>None\<close> is an option. \<open>length_b\<close> is not
  assigned by \<open>__init__\<close> at all: there \<open>None\<close> stands for the attribute being absent, and
  reading it raises \<open>AttributeError\<close>.
\<close>

record ('n, 'a) Path =
  orig_node :: int
  edge_ids :: "int list"
  edges :: "PathEdge list"
  edge_groups :: "(int \<times> PathEdge list) list"
  name :: string
  path_type :: PathType
  cost_coeff :: double
  geometry :: "LineString option"
  length_p :: "double option"
  length_b :: "double option"
  len_diff :: double
  len_diff_rat :: "double option"
  missing_aqi :: bool
  missing_noises :: bool
  noise_attrs :: "'n option"
  aqi_attrs :: "'a option"

text \<open>\<open>Path.__init__\<close>; \<open>cost_coeff\<close> defaults to \<open>0.0\<close> at the call site.\<close>

definition Path_init :: "int \<Rightarrow> int list \<Rightarrow> string \<Rightarrow> PathType \<Rightarrow> double \<Rightarrow> ('n, 'a) Path" where
  "Path_init orig_node' edge_ids' name' path_type' cost_coeff' =
     \<lparr> orig_node = orig_node',
       edge_ids = edge_ids',
       edges = [],
       edge_groups = [],
       name = name',
       path_type = path_type',
       cost_coeff = cost_coeff',
       geometry = None,
       length_p = None,
       length_b = None,
       len_diff = Num 0,
       len_diff_rat = None,
       missing_aqi = False,
       missing_noises = False,
       noise_attrs = None,
       aqi_attrs = None \<rparr>"

section \<open>Edge-group segmentation\<close>

text \<open>
  The \<open>for edge in self.edges\<close> loop of \<open>aggregate_edge_groups_by_attr\<close>. The loop state is
  \<open>(self.edge_groups, cur_group, cur_group_id)\<close>; one equation per iteration.
\<close>

fun edge_loop ::
  "bool \<Rightarrow> PathEdge list \<Rightarrow> (int \<times> PathEdge list) list \<times> PathEdge list \<times> int
     \<Rightarrow> (int \<times> PathEdge list) list \<times> PathEdge list \<times> int" where
  "edge_loop aq [] st = st"
| "edge_loop aq (edge # rest) (groups, cur_group, cur_group_id) =
     (let value = (if aq then aqi_cl edge else db_range edge) in
      if value = cur_group_id then
        edge_loop aq rest (groups, cur_group @ [edge], cur_group_id)
      else
        edge_loop aq rest
          (if cur_group \<noteq> [] then groups @ [(cur_group_id, cur_group)] else groups,
           [edge], value))"

text \<open>
  \<open>Path.aggregate_edge_groups_by_attr\<close>: the guard on the two selectors, the loop started
  with an empty \<open>cur_group\<close> and \<open>cur_group_id = 0\<close>, and the final unconditional append.
\<close>

definition aggregate_edge_groups_by_attr ::
  "('n, 'a) Path \<Rightarrow> bool \<Rightarrow> bool \<Rightarrow> error + ('n, 'a) Path" where
  "aggregate_edge_groups_by_attr self aq noise =
     (if aq = noise \<or> (\<not> aq \<and> \<not> noise) then Inl ValueError
      else
        (case edge_loop aq (edges self) (edge_groups self, [], 0) of
           (groups, cur_group, cur_group_id) \<Rightarrow>
             Inr (self\<lparr>edge_groups := groups @ [(cur_group_id, cur_group)]\<rparr>)))"

text \<open>The discretized value of an edge for the chosen dimension.\<close>

definition group_value :: "bool \<Rightarrow> PathEdge \<Rightarrow> int" where
  "group_value aq edge = (if aq then aqi_cl edge else db_range edge)"

section \<open>Coordinates\<close>

text \<open>\<open>round_coordinates\<close> of \<open>utils/geometry.py\<close>.\<close>

definition round_coordinates :: "(double \<times> double) list \<Rightarrow> nat \<Rightarrow> (double \<times> double) list" where
  "round_coordinates coords_list digits =
     map (\<lambda>coords. (py_round (fst coords) digits, py_round (snd coords) digits)) coords_list"

section \<open>Collaborators\<close>

text \<open>
  The summary factories and the methods of the summary objects live in
  \<open>app/path_noise_attrs.py\<close> and \<open>app/path_aqi_attrs.py\<close>; their code is not modelled. The
  methods of \<open>Path\<close> take them as parameters. \<open>'d\<close> is the type of the \<open>db_costs\<close>
  dictionary, which \<open>Path\<close> only passes on. The two \<open>set_..._diff_attrs\<close> methods mutate
  the summary object; here they return the new one.
\<close>

record ('d, 'n, 'a) collaborators =
  create_path_noise_attrs :: "(int \<times> double) list option list \<Rightarrow> 'd \<Rightarrow> double option \<Rightarrow> 'n"
  create_aqi_attrs :: "(double option \<times> double) list \<Rightarrow> double option \<Rightarrow> 'a"
  set_noise_diff_attrs :: "'n \<Rightarrow> 'n \<Rightarrow> double \<Rightarrow> 'n"
  set_aqi_diff_attrs :: "'a \<Rightarrow> 'a \<Rightarrow> double \<Rightarrow> 'a"
  get_noise_props_dict :: "'n \<Rightarrow> (string \<rightharpoonup> pyval)"
  get_aqi_props_dict :: "'a \<Rightarrow> (string \<rightharpoonup> pyval)"

section \<open>The methods of \<open>Path\<close>\<close>

definition set_path_name :: "('n, 'a) Path \<Rightarrow> string \<Rightarrow> ('n, 'a) Path" where
  "set_path_name self path_name = self\<lparr>name := path_name\<rparr>"

definition set_path_type :: "('n, 'a) Path \<Rightarrow> PathType \<Rightarrow> ('n, 'a) Path" where
  "set_path_type self path_type' = self\<lparr>path_type := path_type'\<rparr>"

text \<open>
  \<open>set_path_edges\<close>: the graph handler is its batch lookup \<open>get_path_edges_by_ids\<close>, which
  fails when an identifier is unknown; the failure is propagated.
\<close>

definition set_path_edges ::
  "('n, 'a) Path \<Rightarrow> (int list \<Rightarrow> error + PathEdge list) \<Rightarrow> error + ('n, 'a) Path" where
  "set_path_edges self get_path_edges_by_ids =
     (case get_path_edges_by_ids (edge_ids self) of
        Inl e \<Rightarrow> Inl e
      | Inr found \<Rightarrow> Inr (self\<lparr>edges := found\<rparr>))"

text \<open>
  \<open>aggregate_path_attrs\<close>. The \<open>LineString\<close> constructor runs first: when it raises,
  nothing has been assigned.
\<close>

definition aggregate_path_attrs :: "('n, 'a) Path \<Rightarrow> error + ('n, 'a) Path" where
  "aggregate_path_attrs self =
     (let path_coords = concat (map coords (edges self)) in
      case new_LineString path_coords of
        Inl e \<Rightarrow> Inl e
      | Inr line \<Rightarrow>
          Inr (self\<lparr> geometry := Some line,
                     length_p := Some (py_round (py_sum (map length_e (edges self))) 2),
                     length_b := Some (py_round (py_sum (map length_b_e (edges self))) 2),
                     missing_noises :=
                       (if None \<in> set (map noises (edges self)) then True else False),
                     missing_aqi :=
                       (if None \<in> set (map aqi (edges self)) then True else False) \<rparr>))"

definition set_noise_attrs ::
  "('d, 'n, 'a) collaborators \<Rightarrow> ('n, 'a) Path \<Rightarrow> 'd \<Rightarrow> ('n, 'a) Path" where
  "set_noise_attrs C self db_costs =
     (if \<not> missing_noises self then
        (let noises_list = map noises (edges self) in
         self\<lparr>noise_attrs :=
           Some (create_path_noise_attrs C noises_list db_costs (length_p self))\<rparr>)
      else self)"

definition set_aqi_attrs :: "('d, 'n, 'a) collaborators \<Rightarrow> ('n, 'a) Path \<Rightarrow> ('n, 'a) Path" where
  "set_aqi_attrs C self =
     (if \<not> missing_aqi self then
        (let aqi_exp_list = map (\<lambda>edge. (aqi edge, length_e edge)) (edges self) in
         self\<lparr>aqi_attrs := Some (create_aqi_attrs C aqi_exp_list (length_p self))\<rparr>)
      else self)"

text \<open>
  \<open>set_green_path_diff_attrs\<close>. The subtraction raises \<open>TypeError\<close> when either length is
  still \<open>None\<close>. A summary object is truthy, so \<open>if self.noise_attrs and ...\<close> tests that
  both are set.
\<close>

definition set_green_path_diff_attrs ::
  "('d, 'n, 'a) collaborators \<Rightarrow> ('n, 'a) Path \<Rightarrow> ('n, 'a) Path \<Rightarrow> error + ('n, 'a) Path" where
  "set_green_path_diff_attrs C self shortest_path =
     (case (length_p self, length_p shortest_path) of
        (Some own, Some base) \<Rightarrow>
          (let diff = py_round (fsub own base) 1 in
           case (if gt_0 base
                 then (case fdiv diff base of
                         Inl e \<Rightarrow> Inl e
                       | Inr q \<Rightarrow> Inr (py_round (fmul q (Num 100)) 1))
                 else Inr (Num 0)) of
             Inl e \<Rightarrow> Inl e
           | Inr rat \<Rightarrow>
               (let p1 = self\<lparr>len_diff := diff, len_diff_rat := Some rat\<rparr>;
                    p2 = (case (noise_attrs p1, noise_attrs shortest_path) of
                            (Some n, Some sn) \<Rightarrow>
                              p1\<lparr>noise_attrs := Some (set_noise_diff_attrs C n sn diff)\<rparr>
                          | _ \<Rightarrow> p1);
                    p3 = (case (aqi_attrs p2, aqi_attrs shortest_path) of
                            (Some a, Some sa) \<Rightarrow>
                              p2\<lparr>aqi_attrs := Some (set_aqi_diff_attrs C a sa diff)\<rparr>
                          | _ \<Rightarrow> p2)
                in Inr p3))
      | _ \<Rightarrow> Inl TypeError)"

section \<open>GeoJSON export\<close>

record geometry_dict =
  coordinates :: "(double \<times> double) list"
  type_g :: string

record feature =
  type_f :: string
  properties :: "string \<rightharpoonup> pyval"
  geometry_f :: geometry_dict

text \<open>The private helper \<open>__get_geojson_feature_dict\<close>.\<close>

definition get_geojson_feature_dict :: "(double \<times> double) list \<Rightarrow> feature" where
  "get_geojson_feature_dict coords' =
     \<lparr> type_f = ''Feature'',
       properties = Map.empty,
       geometry_f = \<lparr> coordinates = coords', type_g = ''LineString'' \<rparr> \<rparr>"

text \<open>A float attribute that may still be \<open>None\<close>, as a Python value.\<close>

definition opt_num :: "double option \<Rightarrow> pyval" where
  "opt_num v = (case v of None \<Rightarrow> PNone | Some x \<Rightarrow> PNum x)"

text \<open>
  \<open>get_as_geojson_feature\<close>. Reading \<open>self.length_b\<close> raises \<open>AttributeError\<close> while
  \<open>aggregate_path_attrs\<close> has not assigned it. The properties are the merge
  \<open>{**props, **noise_props, **aqi_props}\<close>: a later dictionary overrides an earlier one.
\<close>

definition get_as_geojson_feature ::
  "('d, 'n, 'a) collaborators \<Rightarrow> ('n, 'a) Path \<Rightarrow> error + feature" where
  "get_as_geojson_feature C self =
     (let wgs_coords = concat (map coords_wgs (edges self));
          wgs_coords = round_coordinates wgs_coords 6;
          feature_d = get_geojson_feature_dict wgs_coords
      in case length_b self of
           None \<Rightarrow> Inl AttributeError
         | Some lb \<Rightarrow>
             (let props = [''type'' \<mapsto> PStr (value_pt (path_type self)),
                           ''id'' \<mapsto> PStr (name self),
                           ''length'' \<mapsto> opt_num (length_p self),
                           ''length_b'' \<mapsto> PNum lb,
                           ''len_diff'' \<mapsto> PNum (len_diff self),
                           ''len_diff_rat'' \<mapsto> opt_num (len_diff_rat self),
                           ''cost_coeff'' \<mapsto> PNum (cost_coeff self),
                           ''missing_aqi'' \<mapsto> PBool (missing_aqi self),
                           ''missing_noises'' \<mapsto> PBool (missing_noises self)];
                  noise_props = (case noise_attrs self of
                                   Some n \<Rightarrow> get_noise_props_dict C n
                                 | None \<Rightarrow> Map.empty);
                  aqi_props = (case aqi_attrs self of
                                 Some a \<Rightarrow> get_aqi_props_dict C a
                               | None \<Rightarrow> Map.empty)
              in Inr (feature_d\<lparr>properties := props ++ noise_props ++ aqi_props\<rparr>)))"

text \<open>
  The states a path can be in when \<open>set_green_path_diff_attrs\<close> has never been called on
  it: it was constructed, and then any of the other mutating methods ran and returned.
\<close>

inductive no_diff_call :: "('d, 'n, 'a) collaborators \<Rightarrow> ('n, 'a) Path \<Rightarrow> bool"
  for C :: "('d, 'n, 'a) collaborators" where
  constructed: "no_diff_call C (Path_init orig_node' edge_ids' name' path_type' cost_coeff')"
| named: "no_diff_call C p \<Longrightarrow> no_diff_call C (set_path_name p path_name)"
| typed: "no_diff_call C p \<Longrightarrow> no_diff_call C (set_path_type p path_type')"
| resolved: "no_diff_call C p \<Longrightarrow> set_path_edges p G = Inr p' \<Longrightarrow> no_diff_call C p'"
| aggregated: "no_diff_call C p \<Longrightarrow> aggregate_path_attrs p = Inr p' \<Longrightarrow> no_diff_call C p'"
| noise_set: "no_diff_call C p \<Longrightarrow> no_diff_call C (set_noise_attrs C p db_costs)"
| aqi_set: "no_diff_call C p \<Longrightarrow> no_diff_call C (set_aqi_attrs C p)"
| grouped: "no_diff_call C p \<Longrightarrow> aggregate_edge_groups_by_attr p aq noise = Inr p' \<Longrightarrow>
            no_diff_call C p'"

section \<open>Example routes\<close>

text \<open>
  Three edges whose air-quality classes are \<open>1, 2, 1\<close> and whose noise bands are
  \<open>50, 55, 50\<close>; the third has no noise and no air-quality value. The first two are
  \<open>6.908\<close> and \<open>239.907\<close> long. The graph knows these three edges only. The example
  collaborators summarise a route by its number of edges.
\<close>

definition edge_a :: PathEdge where
  "edge_a = \<lparr> id_e = 11, length_e = float_lit (6908 / 1000), length_b_e = Num (1 / 2),
       aqi = Some (Num (3 / 2)), aqi_cl = 1,
       noises = Some [(50, float_lit (6908 / 1000))], db_range = 50,
       coords = [(Num 0, Num 0), (Num 3, Num 4)],
       coords_wgs = [(float_lit (24945831 / 1000000), float_lit (601699 / 10000))] \<rparr>"

definition edge_b :: PathEdge where
  "edge_b = \<lparr> id_e = 12, length_e = float_lit (239907 / 1000), length_b_e = Num (1 / 4),
       aqi = Some (Num (5 / 2)), aqi_cl = 2,
       noises = Some [(55, float_lit (239907 / 1000))], db_range = 55,
       coords = [(Num 3, Num 4), (Num 6, Num 8)],
       coords_wgs = [(float_lit (2494584 / 100000), float_lit (60170001 / 1000000))] \<rparr>"

definition edge_c :: PathEdge where
  "edge_c = \<lparr> id_e = 13, length_e = Num 12, length_b_e = Num 15, aqi = None, aqi_cl = 1,
       noises = None, db_range = 50,
       coords = [(Num 6, Num 8), (Num 6, Num 20)],
       coords_wgs = [(float_lit (24946 / 1000), float_lit (6017 / 100))] \<rparr>"

definition example_graph :: "int list \<Rightarrow> error + PathEdge list" where
  "example_graph ids =
     (if set ids \<subseteq> {11, 12, 13}
      then Inr (map (\<lambda>i. if i = 11 then edge_a else if i = 12 then edge_b else edge_c) ids)
      else Inl LookupError)"

definition example_collaborators :: "(unit, nat, nat) collaborators" where
  "example_collaborators =
     \<lparr> create_path_noise_attrs = (\<lambda>noises_list db_costs len. length noises_list),
       create_aqi_attrs = (\<lambda>aqi_exp_list len. length aqi_exp_list),
       set_noise_diff_attrs = (\<lambda>own base diff. own),
       set_aqi_diff_attrs = (\<lambda>own base diff. own),
       get_noise_props_dict = (\<lambda>n. [''mdB'' \<mapsto> PNum (Num (of_nat n))]),
       get_aqi_props_dict = (\<lambda>a. [''aqi_m'' \<mapsto> PNum (Num (of_nat a))]) \<rparr>"

definition example_path :: "(nat, nat) Path" where
  "example_path =
     (Path_init 7 [11, 12, 13] ''short'' (PathType ''short'') (Num 0))
       \<lparr>edges := [edge_a, edge_b, edge_c]\<rparr>"

definition example_pair :: "(nat, nat) Path" where
  "example_pair =
     (Path_init 7 [11, 12] ''short'' (PathType ''short'') (Num 0))\<lparr>edges := [edge_a, edge_b]\<rparr>"

text \<open>A path without edges, and one whose only edge has a single coordinate.\<close>

definition empty_path :: "(nat, nat) Path" where
  "empty_path = Path_init 7 [] ''short'' (PathType ''short'') (Num 0)"

definition point_path :: "(nat, nat) Path" where
  "point_path =
     (Path_init 7 [13] ''short'' (PathType ''short'') (Num 0))
       \<lparr>edges := [edge_c\<lparr>coords := [(Num 6, Num 8)]\<rparr>]\<rparr>"

text \<open>
  The two example paths after aggregation (the two-edge path is \<open>246.81\<close> long), and the
  two-edge path after its summaries have been computed as well.
\<close>

definition pair_aggregated :: "(nat, nat) Path" where
  "pair_aggregated =
     example_pair\<lparr> geometry := Some (LineString [(Num 0, Num 0), (Num 3, Num 4),
                                                (Num 3, Num 4), (Num 6, Num 8)]),
                   length_p := Some (float_lit (24681 / 100)),
                   length_b := Some (Num (3 / 4)),
                   missing_noises := False,
                   missing_aqi := False \<rparr>"

definition path_aggregated :: "(nat, nat) Path" where
  "path_aggregated =
     example_path\<lparr> geometry := Some (LineString [(Num 0, Num 0), (Num 3, Num 4),
                                                (Num 3, Num 4), (Num 6, Num 8),
                                                (Num 6, Num 8), (Num 6, Num 20)]),
                   length_p := Some (float_lit (25881 / 100)),
                   length_b := Some (Num (63 / 4)),
                   missing_noises := True,
                   missing_aqi := True \<rparr>"

definition example_route :: "(nat, nat) Path" where
  "example_route =
     set_aqi_attrs example_collaborators (set_noise_attrs example_collaborators pair_aggregated ())"

text \<open>
  A baseline path of one edge of length \<open>40.0\<close> and a greener alternative that adds an
  edge of length \<open>11.5\<close>, before and after aggregation; and the aggregated empty path,
  whose length is \<open>0\<close>.
\<close>

definition edge_d :: PathEdge where
  "edge_d = \<lparr> id_e = 21, length_e = Num 40, length_b_e = Num 40, aqi = Some (Num 2), aqi_cl = 2,
       noises = Some [(60, Num 40)], db_range = 60,
       coords = [(Num 0, Num 0), (Num 40, Num 0)],
       coords_wgs = [(float_lit (2494 / 100), float_lit (6017 / 100))] \<rparr>"

definition edge_e :: PathEdge where
  "edge_e = \<lparr> id_e = 22, length_e = Num (23 / 2), length_b_e = Num (23 / 2),
       aqi = Some (Num 1), aqi_cl = 1,
       noises = Some [(45, Num (23 / 2))], db_range = 45,
       coords = [(Num 40, Num 0), (Num 40, Num (23 / 2))],
       coords_wgs = [(float_lit (2495 / 100), float_lit (6017 / 100))] \<rparr>"

definition short_edges :: "(nat, nat) Path" where
  "short_edges =
     (Path_init 7 [21] ''short'' (PathType ''short'') (Num 0))\<lparr>edges := [edge_d]\<rparr>"

definition green_edges :: "(nat, nat) Path" where
  "green_edges =
     (Path_init 7 [21, 22] ''green'' (PathType ''green'') (Num 1))\<lparr>edges := [edge_d, edge_e]\<rparr>"

definition short_path :: "(nat, nat) Path" where
  "short_path =
     short_edges\<lparr> geometry := Some (LineString [(Num 0, Num 0), (Num 40, Num 0)]),
                   length_p := Some (Num 40), length_b := Some (Num 40) \<rparr>"

definition green_path :: "(nat, nat) Path" where
  "green_path =
     green_edges\<lparr> geometry := Some (LineString [(Num 0, Num 0), (Num 40, Num 0),
                                                (Num 40, Num 0), (Num 40, Num (23 / 2))]),
                   length_p := Some (Num (103 / 2)), length_b := Some (Num (103 / 2)) \<rparr>"

definition zero_path :: "(nat, nat) Path" where
  "zero_path =
     empty_path\<lparr>geometry := Some (LineString []), length_p := Some (Num 0),
       length_b := Some (Num 0)\<rparr>"

section \<open>The segmentation loop\<close>

text \<open>One iteration of the loop, by the branch it takes.\<close>

lemma edge_loop_Cons_same:
  "group_value aq e = cid \<Longrightarrow>
     edge_loop aq (e # es) (G, cur, cid) = edge_loop aq es (G, cur @ [e], cid)"
  by (simp add: group_value_def)

lemma edge_loop_Cons_first:
  "group_value aq e \<noteq> cid \<Longrightarrow>
     edge_loop aq (e # es) (G, [], cid) = edge_loop aq es (G, [e], group_value aq e)"
  by (simp add: group_value_def)

lemma edge_loop_Cons_flush:
  "group_value aq e \<noteq> cid \<Longrightarrow> cur \<noteq> [] \<Longrightarrow>
     edge_loop aq (e # es) (G, cur, cid) =
       edge_loop aq es (G @ [(cid, cur)], [e], group_value aq e)"
  by (simp add: group_value_def)

text \<open>
  The groups already in \<open>self.edge_groups\<close> are never read by the loop: it only appends
  to them.
\<close>

lemma edge_loop_prefix:
  "edge_loop aq es ([], cur, cid) = (N, c, i) \<Longrightarrow>
     edge_loop aq es (G, cur, cid) = (G @ N, c, i)"
proof (induction es arbitrary: G cur cid N c i)
  case Nil
  then show ?case by simp
next
  case (Cons e es)
  show ?case
  proof (cases "group_value aq e = cid")
    case True
    from Cons.prems have "edge_loop aq es ([], cur @ [e], cid) = (N, c, i)"
      by (simp only: edge_loop_Cons_same [OF True])
    then have "edge_loop aq es (G, cur @ [e], cid) = (G @ N, c, i)"
      by (rule Cons.IH)
    then show ?thesis by (simp only: edge_loop_Cons_same [OF True])
  next
    case False
    show ?thesis
    proof (cases "cur = []")
      case True
      from Cons.prems have "edge_loop aq es ([], [e], group_value aq e) = (N, c, i)"
        by (simp only: True edge_loop_Cons_first [OF False])
      then have "edge_loop aq es (G, [e], group_value aq e) = (G @ N, c, i)"
        by (rule Cons.IH)
      then show ?thesis by (simp only: True edge_loop_Cons_first [OF False])
    next
      case nonempty: False
      obtain N0 c0 i0 where start: "edge_loop aq es ([], [e], group_value aq e) = (N0, c0, i0)"
        by (cases "edge_loop aq es ([], [e], group_value aq e)") blast
      have one: "edge_loop aq es ([(cid, cur)], [e], group_value aq e) = ([(cid, cur)] @ N0, c0, i0)"
        using start by (rule Cons.IH)
      have "edge_loop aq es ([] @ [(cid, cur)], [e], group_value aq e) = (N, c, i)"
        using Cons.prems by (simp only: edge_loop_Cons_flush [OF False nonempty])
      with one have eqs: "N = (cid, cur) # N0" "c = c0" "i = i0" by simp_all
      have "edge_loop aq es ((G @ [(cid, cur)]), [e], group_value aq e) = ((G @ [(cid, cur)]) @ N0, c0, i0)"
        using start by (rule Cons.IH)
      then show ?thesis
        by (simp only: edge_loop_Cons_flush [OF False nonempty] eqs) simp
    qed
  qed
qed

text \<open>
  A call returns exactly when the selectors differ, and then appends the groups that the
  loop produces from an empty group list, followed by the last current group.
\<close>

lemma aggregate_edge_groups_Inr:
  assumes "aggregate_edge_groups_by_attr p aq noise = Inr p'"
  obtains N c i where
    "aq \<noteq> noise"
    "edge_loop aq (edges p) ([], [], 0) = (N, c, i)"
    "p' = p\<lparr>edge_groups := edge_groups p @ N @ [(i, c)]\<rparr>"
proof -
  obtain N c i where run: "edge_loop aq (edges p) ([], [], 0) = (N, c, i)"
    by (cases "edge_loop aq (edges p) ([], [], 0)") blast
  have full: "edge_loop aq (edges p) (edge_groups p, [], 0) = (edge_groups p @ N, c, i)"
    using run by (rule edge_loop_prefix)
  from assms have valid: "aq \<noteq> noise"
    by (auto simp: aggregate_edge_groups_by_attr_def split: if_splits)
  with assms full have "p' = p\<lparr>edge_groups := edge_groups p @ N @ [(i, c)]\<rparr>"
    by (auto simp: aggregate_edge_groups_by_attr_def)
  with valid run show thesis by (rule that)
qed

lemma aggregate_edge_groups_valid:
  assumes "aq \<noteq> noise" "edge_loop aq (edges p) ([], [], 0) = (N, c, i)"
  shows "aggregate_edge_groups_by_attr p aq noise =
           Inr (p\<lparr>edge_groups := edge_groups p @ N @ [(i, c)]\<rparr>)"
proof -
  have "edge_loop aq (edges p) (edge_groups p, [], 0) = (edge_groups p @ N, c, i)"
    using assms(2) by (rule edge_loop_prefix)
  with assms(1) show ?thesis
    by (auto simp: aggregate_edge_groups_by_attr_def)
qed

text \<open>
  Loop invariants. The flushed groups followed by the current group always hold the
  edges seen so far, in order; every group holds edges of its own value; no group is
  empty; consecutive group values differ.
\<close>

lemma edge_loop_concat:
  "edge_loop aq es (G, cur, cid) = (G', cur', cid') \<Longrightarrow>
     concat (map snd G') @ cur' = concat (map snd G) @ cur @ es"
proof (induction es arbitrary: G cur cid)
  case Nil
  then show ?case by simp
next
  case (Cons e es)
  show ?case
  proof (cases "group_value aq e = cid")
    case True
    from Cons.prems have "edge_loop aq es (G, cur @ [e], cid) = (G', cur', cid')"
      by (simp only: edge_loop_Cons_same [OF True])
    from Cons.IH [OF this] show ?thesis by simp
  next
    case False
    show ?thesis
    proof (cases "cur = []")
      case True
      from Cons.prems have "edge_loop aq es (G, [e], group_value aq e) = (G', cur', cid')"
        by (simp only: True edge_loop_Cons_first [OF False])
      from Cons.IH [OF this] True show ?thesis by simp
    next
      case nonempty: False
      from Cons.prems
      have "edge_loop aq es (G @ [(cid, cur)], [e], group_value aq e) = (G', cur', cid')"
        by (simp only: edge_loop_Cons_flush [OF False nonempty])
      from Cons.IH [OF this] show ?thesis by simp
    qed
  qed
qed

lemma edge_loop_homogeneous:
  "edge_loop aq es (G, cur, cid) = (G', cur', cid') \<Longrightarrow>
   \<forall>(v, g) \<in> set G. \<forall>e \<in> set g. group_value aq e = v \<Longrightarrow>
   \<forall>e \<in> set cur. group_value aq e = cid \<Longrightarrow>
     (\<forall>(v, g) \<in> set G'. \<forall>e \<in> set g. group_value aq e = v) \<and>
     (\<forall>e \<in> set cur'. group_value aq e = cid')"
proof (induction es arbitrary: G cur cid)
  case Nil
  then show ?case by simp
next
  case (Cons e es)
  have fresh: "\<forall>x \<in> set [e]. group_value aq x = group_value aq e" by simp
  show ?case
  proof (cases "group_value aq e = cid")
    case True
    from Cons.prems(1) have run: "edge_loop aq es (G, cur @ [e], cid) = (G', cur', cid')"
      by (simp only: edge_loop_Cons_same [OF True])
    have "\<forall>x \<in> set (cur @ [e]). group_value aq x = cid"
      using Cons.prems(3) True by simp
    from Cons.IH [OF run Cons.prems(2) this] show ?thesis .
  next
    case False
    show ?thesis
    proof (cases "cur = []")
      case True
      from Cons.prems(1) have "edge_loop aq es (G, [e], group_value aq e) = (G', cur', cid')"
        by (simp only: True edge_loop_Cons_first [OF False])
      from Cons.IH [OF this Cons.prems(2) fresh] show ?thesis .
    next
      case nonempty: False
      from Cons.prems(1)
      have run: "edge_loop aq es (G @ [(cid, cur)], [e], group_value aq e) = (G', cur', cid')"
        by (simp only: edge_loop_Cons_flush [OF False nonempty])
      have "\<forall>(v, g) \<in> set (G @ [(cid, cur)]). \<forall>x \<in> set g. group_value aq x = v"
        using Cons.prems(2,3) by simp
      from Cons.IH [OF run this fresh] show ?thesis .
    qed
  qed
qed

lemma edge_loop_nonempty:
  "edge_loop aq es (G, cur, cid) = (G', cur', cid') \<Longrightarrow>
   \<forall>(v, g) \<in> set G. g \<noteq> [] \<Longrightarrow>
     (\<forall>(v, g) \<in> set G'. g \<noteq> []) \<and> (cur \<noteq> [] \<or> es \<noteq> [] \<longrightarrow> cur' \<noteq> [])"
proof (induction es arbitrary: G cur cid)
  case Nil
  then show ?case by simp
next
  case (Cons e es)
  show ?case
  proof (cases "group_value aq e = cid")
    case True
    from Cons.prems(1) have "edge_loop aq es (G, cur @ [e], cid) = (G', cur', cid')"
      by (simp only: edge_loop_Cons_same [OF True])
    from Cons.IH [OF this Cons.prems(2)] show ?thesis by simp
  next
    case False
    show ?thesis
    proof (cases "cur = []")
      case True
      from Cons.prems(1) have "edge_loop aq es (G, [e], group_value aq e) = (G', cur', cid')"
        by (simp only: True edge_loop_Cons_first [OF False])
      from Cons.IH [OF this Cons.prems(2)] show ?thesis by simp
    next
      case nonempty: False
      from Cons.prems(1)
      have run: "edge_loop aq es (G @ [(cid, cur)], [e], group_value aq e) = (G', cur', cid')"
        by (simp only: edge_loop_Cons_flush [OF False nonempty])
      have "\<forall>(v, g) \<in> set (G @ [(cid, cur)]). g \<noteq> []"
        using Cons.prems(2) nonempty by simp
      from Cons.IH [OF run this] show ?thesis by simp
    qed
  qed
qed

lemma edge_loop_runs:
  "edge_loop aq es (G, cur, cid) = (G', cur', cid') \<Longrightarrow>
   cur \<noteq> [] \<Longrightarrow>
   distinct_adj (map fst G @ [cid]) \<Longrightarrow>
     distinct_adj (map fst G' @ [cid'])"
proof (induction es arbitrary: G cur cid)
  case Nil
  then show ?case by simp
next
  case (Cons e es)
  show ?case
  proof (cases "group_value aq e = cid")
    case True
    from Cons.prems(1) have run: "edge_loop aq es (G, cur @ [e], cid) = (G', cur', cid')"
      by (simp only: edge_loop_Cons_same [OF True])
    have "cur @ [e] \<noteq> []" by simp
    from Cons.IH [OF run this Cons.prems(3)] show ?thesis .
  next
    case False
    from Cons.prems(1)
    have run: "edge_loop aq es (G @ [(cid, cur)], [e], group_value aq e) = (G', cur', cid')"
      by (simp only: edge_loop_Cons_flush [OF False Cons.prems(2)])
    have "[e] \<noteq> []" by simp
    moreover have "distinct_adj (map fst (G @ [(cid, cur)]) @ [group_value aq e])"
      using Cons.prems(3) False by (simp add: distinct_adj_append_iff)
    ultimately show ?thesis by (rule Cons.IH [OF run])
  qed
qed

lemma edge_loop_runs_start:
  assumes run: "edge_loop aq es ([], [], 0) = (G', cur', cid')"
  shows "distinct_adj (map fst G' @ [cid'])"
proof (cases es)
  case Nil
  with run show ?thesis by simp
next
  case (Cons e rest)
  have single: "distinct_adj (map fst ([] :: (int \<times> PathEdge list) list) @ [v])" for v :: int
    by simp
  show ?thesis
  proof (cases "group_value aq e = 0")
    case True
    from run have "edge_loop aq rest ([], [] @ [e], 0) = (G', cur', cid')"
      by (simp only: Cons edge_loop_Cons_same [OF True])
    from edge_loop_runs [OF this _ single] show ?thesis by simp
  next
    case False
    from run have "edge_loop aq rest ([], [e], group_value aq e) = (G', cur', cid')"
      by (simp only: Cons edge_loop_Cons_first [OF False])
    from edge_loop_runs [OF this _ single] show ?thesis by simp
  qed
qed

section \<open>Properties of the edge groups\<close>

text \<open>
  C1. For every path and either grouping dimension, the groups that a successful call of
  \<open>aggregate_edge_groups_by_attr\<close> appends to \<open>edge_groups\<close> have, concatenated in order,
  exactly the path's edge list as their edges.
\<close>

theorem groups_concat_edges:
  assumes "aggregate_edge_groups_by_attr p aq noise = Inr p'"
  shows "\<exists>gs. edge_groups p' = edge_groups p @ gs \<and> concat (map snd gs) = edges p"
proof -
  from assms obtain N c i where
    run: "edge_loop aq (edges p) ([], [], 0) = (N, c, i)" and
    p': "p' = p\<lparr>edge_groups := edge_groups p @ N @ [(i, c)]\<rparr>"
    by (rule aggregate_edge_groups_Inr)
  from edge_loop_concat [OF run] have "concat (map snd (N @ [(i, c)])) = edges p"
    by simp
  with p' show ?thesis by simp
qed

theorem groups_concat_edges_witness:
  "\<exists>p'. aggregate_edge_groups_by_attr example_path True False = Inr p' \<and>
     edge_groups p' = [(1, [edge_a]), (2, [edge_b]), (1, [edge_c])] \<and>
     (\<exists>gs. edge_groups p' = edge_groups example_path @ gs \<and>
        concat (map snd gs) = [edge_a, edge_b, edge_c])"
proof -
  have run: "aggregate_edge_groups_by_attr example_path True False =
      Inr (example_path\<lparr>edge_groups := [(1, [edge_a]), (2, [edge_b]), (1, [edge_c])]\<rparr>)"
    by (simp add: aggregate_edge_groups_by_attr_def example_path_def Path_init_def
        edge_a_def edge_b_def edge_c_def)
  from groups_concat_edges [OF run] run show ?thesis
    by (simp add: example_path_def)
qed

text \<open>
  C2. For every path and either grouping dimension, every edge in a group that the call
  appends has the group's value as its discretized value (\<open>aqi_cl\<close> when grouping by air
  quality, \<open>db_range\<close> when grouping by noise), and no two consecutive appended groups
  have the same value.
\<close>

theorem groups_homogeneous_maximal:
  assumes "aggregate_edge_groups_by_attr p aq noise = Inr p'"
  shows "\<exists>gs. edge_groups p' = edge_groups p @ gs \<and>
           (\<forall>(v, g) \<in> set gs. \<forall>e \<in> set g. group_value aq e = v) \<and>
           distinct_adj (map fst gs)"
proof -
  from assms obtain N c i where
    run: "edge_loop aq (edges p) ([], [], 0) = (N, c, i)" and
    p': "p' = p\<lparr>edge_groups := edge_groups p @ N @ [(i, c)]\<rparr>"
    by (rule aggregate_edge_groups_Inr)
  from edge_loop_homogeneous [OF run]
  have "\<forall>(v, g) \<in> set (N @ [(i, c)]). \<forall>e \<in> set g. group_value aq e = v"
    by simp
  moreover from edge_loop_runs_start [OF run] have "distinct_adj (map fst (N @ [(i, c)]))"
    by simp
  ultimately show ?thesis using p' by simp
qed

theorem groups_homogeneous_maximal_witness:
  "\<exists>p'. aggregate_edge_groups_by_attr example_path False True = Inr p' \<and>
     edge_groups p' = [(50, [edge_a]), (55, [edge_b]), (50, [edge_c])] \<and>
     (\<exists>gs. edge_groups p' = edge_groups example_path @ gs \<and>
        (\<forall>(v, g) \<in> set gs. \<forall>e \<in> set g. group_value False e = v) \<and>
        distinct_adj (map fst gs))"
proof -
  have run: "aggregate_edge_groups_by_attr example_path False True =
      Inr (example_path\<lparr>edge_groups := [(50, [edge_a]), (55, [edge_b]), (50, [edge_c])]\<rparr>)"
    by (simp add: aggregate_edge_groups_by_attr_def example_path_def Path_init_def
        edge_a_def edge_b_def edge_c_def)
  from groups_homogeneous_maximal [OF run] run show ?thesis
    by (simp add: example_path_def)
qed

text \<open>
  When the path has at least one edge, every appended group is non-empty.
\<close>

lemma groups_nonempty_of_nonempty_edges:
  assumes "aggregate_edge_groups_by_attr p aq noise = Inr p'" "edges p \<noteq> []"
  shows "\<exists>gs. edge_groups p' = edge_groups p @ gs \<and> (\<forall>(v, g) \<in> set gs. g \<noteq> [])"
proof -
  from assms(1) obtain N c i where
    run: "edge_loop aq (edges p) ([], [], 0) = (N, c, i)" and
    p': "p' = p\<lparr>edge_groups := edge_groups p @ N @ [(i, c)]\<rparr>"
    by (rule aggregate_edge_groups_Inr)
  from edge_loop_nonempty [OF run] assms(2)
  have "\<forall>(v, g) \<in> set (N @ [(i, c)]). g \<noteq> []"
    by simp
  with p' show ?thesis by simp
qed

text \<open>
  C3. The claim that every produced group is non-empty, also for a path without edges,
  fails on the code: the final append is not guarded, so a path constructed with an
  empty list of edge identifiers gets the single group \<open>(0, [])\<close>.
\<close>

theorem empty_path_empty_group:
  "aggregate_edge_groups_by_attr (Path_init orig_node' [] name' path_type' cost_coeff') True False =
     Inr ((Path_init orig_node' [] name' path_type' cost_coeff')\<lparr>edge_groups := [(0, [])]\<rparr>)"
  by (simp add: aggregate_edge_groups_by_attr_def Path_init_def)

text \<open>
  C4. \<open>aggregate_edge_groups_by_attr\<close> raises \<open>ValueError\<close> if and only if its two
  selectors are both true or both false; with exactly one of them true it returns.
\<close>

theorem value_error_iff:
  "((aggregate_edge_groups_by_attr p aq noise = Inl ValueError) =
      ((aq \<and> noise) \<or> (\<not> aq \<and> \<not> noise))) \<and>
   ((\<exists>p'. aggregate_edge_groups_by_attr p aq noise = Inr p') =
      ((aq \<and> \<not> noise) \<or> (\<not> aq \<and> noise)))"
  by (auto simp: aggregate_edge_groups_by_attr_def split: prod.splits)

theorem value_error_iff_witness:
  "aggregate_edge_groups_by_attr example_path True True = Inl ValueError \<and>
   aggregate_edge_groups_by_attr example_path False False = Inl ValueError \<and>
   (\<exists>p'. aggregate_edge_groups_by_attr example_path True False = Inr p') \<and>
   (\<exists>p'. aggregate_edge_groups_by_attr example_path False True = Inr p')"
  using value_error_iff [of example_path True True]
    value_error_iff [of example_path False False]
    value_error_iff [of example_path True False]
    value_error_iff [of example_path False True]
  by simp

text \<open>
  C8. A three-edge path whose discretized values for the chosen dimension are \<open>1, 2, 1\<close>
  gets exactly the three groups \<open>(1, [e0]), (2, [e1]), (1, [e2])\<close>: the two edges of
  value \<open>1\<close> are not contiguous and are not merged.
\<close>

theorem alternating_values_three_groups:
  assumes "aq \<noteq> noise" "edges p = [e0, e1, e2]"
    "group_value aq e0 = 1" "group_value aq e1 = 2" "group_value aq e2 = 1"
  shows "aggregate_edge_groups_by_attr p aq noise =
           Inr (p\<lparr>edge_groups := edge_groups p @ [(1, [e0]), (2, [e1]), (1, [e2])]\<rparr>)"
proof -
  have "edge_loop aq [e0, e1, e2] ([], [], 0) = ([(1, [e0]), (2, [e1])], [e2], 1)"
    using assms(3-5)
    by (simp del: edge_loop.simps
        add: edge_loop.simps(1) edge_loop_Cons_first edge_loop_Cons_flush)
  then have "edge_loop aq (edges p) ([], [], 0) = ([(1, [e0]), (2, [e1])], [e2], 1)"
    by (simp only: assms(2))
  from aggregate_edge_groups_valid [OF assms(1) this] show ?thesis by simp
qed

theorem alternating_values_three_groups_witness:
  "aggregate_edge_groups_by_attr example_path True False =
     Inr (example_path\<lparr>edge_groups := [(1, [edge_a]), (2, [edge_b]), (1, [edge_c])]\<rparr>)"
proof -
  have "True \<noteq> False" by simp
  moreover have "edges example_path = [edge_a, edge_b, edge_c]"
    by (simp add: example_path_def)
  moreover have "group_value True edge_a = 1" "group_value True edge_b = 2"
      "group_value True edge_c = 1"
    by (simp_all add: group_value_def edge_a_def edge_b_def edge_c_def)
  ultimately have "aggregate_edge_groups_by_attr example_path True False =
      Inr (example_path\<lparr>edge_groups := edge_groups example_path @ [(1, [edge_a]), (2, [edge_b]), (1, [edge_c])]\<rparr>)"
    by (rule alternating_values_three_groups)
  then show ?thesis by (simp add: example_path_def Path_init_def)
qed

text \<open>
  C9. The call appends to \<open>edge_groups\<close> without clearing it: with a valid selector a
  second call appends the very groups the first one appended, so on a path whose
  \<open>edge_groups\<close> was empty the list after the second call is the list after the first
  call concatenated with itself, and differs from it.
\<close>

theorem groups_appended_again:
  assumes "aq \<noteq> noise"
  shows "\<exists>p1 p2 gs.
           aggregate_edge_groups_by_attr p aq noise = Inr p1 \<and>
           aggregate_edge_groups_by_attr p1 aq noise = Inr p2 \<and>
           edge_groups p1 = edge_groups p @ gs \<and>
           edge_groups p2 = edge_groups p @ gs @ gs \<and>
           gs \<noteq> [] \<and>
           (edge_groups p = [] \<longrightarrow>
              edge_groups p2 = edge_groups p1 @ edge_groups p1 \<and> edge_groups p2 \<noteq> edge_groups p1)"
proof -
  obtain N c i where run: "edge_loop aq (edges p) ([], [], 0) = (N, c, i)"
    by (cases "edge_loop aq (edges p) ([], [], 0)") blast
  let ?gs = "N @ [(i, c)]"
  let ?p1 = "p\<lparr>edge_groups := edge_groups p @ ?gs\<rparr>"
  let ?p2 = "?p1\<lparr>edge_groups := edge_groups ?p1 @ ?gs\<rparr>"
  have first: "aggregate_edge_groups_by_attr p aq noise = Inr ?p1"
    using assms run by (rule aggregate_edge_groups_valid)
  have "edge_loop aq (edges ?p1) ([], [], 0) = (N, c, i)"
    using run by simp
  with assms have second: "aggregate_edge_groups_by_attr ?p1 aq noise = Inr ?p2"
    by (rule aggregate_edge_groups_valid)
  have "edge_groups ?p1 = edge_groups p @ ?gs" by simp
  moreover have "edge_groups ?p2 = edge_groups p @ ?gs @ ?gs" by simp
  moreover have "?gs \<noteq> []" by simp
  moreover have "edge_groups p = [] \<longrightarrow>
      edge_groups ?p2 = edge_groups ?p1 @ edge_groups ?p1 \<and> edge_groups ?p2 \<noteq> edge_groups ?p1"
    by simp
  ultimately show ?thesis using first second by blast
qed

theorem groups_appended_again_witness:
  "\<exists>p1 p2. aggregate_edge_groups_by_attr example_path True False = Inr p1 \<and>
      aggregate_edge_groups_by_attr p1 True False = Inr p2 \<and>
      edge_groups p1 = [(1, [edge_a]), (2, [edge_b]), (1, [edge_c])] \<and>
      edge_groups p2 = [(1, [edge_a]), (2, [edge_b]), (1, [edge_c]),
                        (1, [edge_a]), (2, [edge_b]), (1, [edge_c])]"
proof -
  have valid: "True \<noteq> False" by simp
  have run: "aggregate_edge_groups_by_attr example_path True False =
      Inr (example_path\<lparr>edge_groups := [(1, [edge_a]), (2, [edge_b]), (1, [edge_c])]\<rparr>)"
    by (simp add: aggregate_edge_groups_by_attr_def example_path_def Path_init_def
        edge_a_def edge_b_def edge_c_def)
  have start: "edge_groups example_path = []"
    by (simp add: example_path_def Path_init_def)
  from groups_appended_again [OF valid, of example_path] obtain p1 p2 gs where
    "aggregate_edge_groups_by_attr example_path True False = Inr p1"
    "aggregate_edge_groups_by_attr p1 True False = Inr p2"
    "edge_groups p1 = edge_groups example_path @ gs"
    "edge_groups p2 = edge_groups example_path @ gs @ gs"
    by blast
  with run start show ?thesis by auto
qed

section \<open>Rounding to a double\<close>

text \<open>
  \<open>round_half_even\<close> is within a half of its argument and leaves an integer alone, so
  \<open>nearest x\<close> is a multiple of the spacing of the doubles around \<open>x\<close>, at most half a
  spacing away from \<open>x\<close>.
\<close>

lemma round_half_even_near: "\<bar>of_int (round_half_even y) - y\<bar> \<le> 1 / 2" for y :: real
  unfolding round_half_even_def Let_def by (auto split: if_splits)

lemma round_half_even_int: "round_half_even (of_int n) = n"
  by (simp add: round_half_even_def)

lemma pow2_positive: "0 < pow2 k"
  by (simp add: pow2_def)

lemma nearest_near:
  "\<bar>nearest x - x\<bar> \<le> pow2 (max (binade x) (- 1022) - 52) / 2"
proof -
  define q where "q = pow2 (max (binade x) (- 1022) - 52)"
  define n where "n = round_half_even (x / q)"
  have pos: "0 < q" unfolding q_def by (rule pow2_positive)
  have "\<bar>of_int n - x / q\<bar> \<le> 1 / 2"
    unfolding n_def by (rule round_half_even_near)
  then have "\<bar>of_int n - x / q\<bar> * q \<le> 1 / 2 * q"
    using pos by (simp add: mult_right_mono)
  moreover have "\<bar>of_int n - x / q\<bar> * q = \<bar>(of_int n - x / q) * q\<bar>"
    using pos by (simp add: abs_mult)
  moreover have "(of_int n - x / q) * q = of_int n * q - x"
    using pos by (simp add: left_diff_distrib)
  ultimately have "\<bar>of_int n * q - x\<bar> \<le> q / 2" by simp
  then show ?thesis by (simp add: nearest_def Let_def q_def n_def)
qed

section \<open>Float arithmetic on the examples\<close>

text \<open>
  The definitions that evaluate a float operation on given numbers, and the outcome of
  \<open>aggregate_path_attrs\<close> on the example paths: \<open>6.908 + 239.907\<close> rounds to \<open>246.81\<close>,
  and a path with a single coordinate makes the \<open>LineString\<close> constructor raise.
\<close>

lemmas float_eval = float_lit_def to_double_def nearest_def binade_def pow2_def
  round_half_even_def round_decimal_def Let_def fadd_def fsub_def fmul_def fdiv_def py_sum_def

lemma pair_aggregates: "aggregate_path_attrs example_pair = Inr pair_aggregated"
  by (simp add: aggregate_path_attrs_def new_LineString_def pair_aggregated_def example_pair_def
      Path_init_def edge_a_def edge_b_def float_eval)

lemma path_aggregates: "aggregate_path_attrs example_path = Inr path_aggregated"
  by (simp add: aggregate_path_attrs_def new_LineString_def path_aggregated_def example_path_def
      Path_init_def edge_a_def edge_b_def edge_c_def float_eval)

lemma short_aggregates: "aggregate_path_attrs short_edges = Inr short_path"
  by (simp add: aggregate_path_attrs_def new_LineString_def short_path_def short_edges_def
      Path_init_def edge_d_def float_eval)

lemma green_aggregates: "aggregate_path_attrs green_edges = Inr green_path"
  by (simp add: aggregate_path_attrs_def new_LineString_def green_path_def green_edges_def
      Path_init_def edge_d_def edge_e_def float_eval)

lemma empty_aggregates: "aggregate_path_attrs empty_path = Inr zero_path"
  by (simp add: aggregate_path_attrs_def new_LineString_def zero_path_def empty_path_def
      Path_init_def float_eval)

lemma point_not_aggregated: "aggregate_path_attrs point_path = Inl GeometryError"
  by (simp add: aggregate_path_attrs_def new_LineString_def point_path_def Path_init_def)

section \<open>Aggregation of the path attributes\<close>

text \<open>
  What \<open>aggregate_path_attrs\<close> assigns when it returns, and when it returns.
\<close>

lemma aggregate_path_attrs_Inr:
  assumes "aggregate_path_attrs p = Inr p'"
  shows "p' = p\<lparr> geometry := Some (LineString (concat (map coords (edges p)))),
                  length_p := Some (py_round (py_sum (map length_e (edges p))) 2),
                  length_b := Some (py_round (py_sum (map length_b_e (edges p))) 2),
                  missing_noises := (None \<in> set (map noises (edges p))),
                  missing_aqi := (None \<in> set (map aqi (edges p))) \<rparr>"
  using assms
  by (auto simp: aggregate_path_attrs_def new_LineString_def Let_def split: if_splits)

lemma aggregate_path_attrs_returns:
  "(\<exists>p'. aggregate_path_attrs p = Inr p') = (length (concat (map coords (edges p))) \<noteq> 1)"
  by (simp add: aggregate_path_attrs_def new_LineString_def Let_def)

text \<open>
  C5. After \<open>aggregate_path_attrs\<close> has returned, \<open>missing_noises\<close> is true if and only if
  some edge has no noise value; when it is true, \<open>set_noise_attrs\<close> changes nothing, so
  \<open>noise_attrs\<close> stays as it was, and stays \<open>None\<close> when it was unset. The same holds
  for \<open>missing_aqi\<close> and \<open>set_aqi_attrs\<close>.
\<close>

theorem missing_data_propagation:
  assumes "aggregate_path_attrs p = Inr p'"
  shows "(missing_noises p' = (\<exists>e \<in> set (edges p). noises e = None)) \<and>
         (missing_noises p' \<longrightarrow>
            set_noise_attrs C p' db_costs = p' \<and>
            noise_attrs (set_noise_attrs C p' db_costs) = noise_attrs p) \<and>
         (missing_noises p' \<and> noise_attrs p = None \<longrightarrow>
            noise_attrs (set_noise_attrs C p' db_costs) = None) \<and>
         (missing_aqi p' = (\<exists>e \<in> set (edges p). aqi e = None)) \<and>
         (missing_aqi p' \<longrightarrow>
            set_aqi_attrs C p' = p' \<and> aqi_attrs (set_aqi_attrs C p') = aqi_attrs p) \<and>
         (missing_aqi p' \<and> aqi_attrs p = None \<longrightarrow> aqi_attrs (set_aqi_attrs C p') = None)"
proof -
  note p' = aggregate_path_attrs_Inr [OF assms]
  have member: "(None \<in> f ` set es) = (\<exists>e \<in> set es. f e = None)"
    for f :: "PathEdge \<Rightarrow> 'v option" and es
    by (metis imageE image_eqI)
  have noise_flag: "missing_noises p' = (\<exists>e \<in> set (edges p). noises e = None)"
    by (simp add: p' member)
  have aqi_flag: "missing_aqi p' = (\<exists>e \<in> set (edges p). aqi e = None)"
    by (simp add: p' member)
  have noise_kept: "noise_attrs p' = noise_attrs p"
    by (simp add: p')
  have aqi_kept: "aqi_attrs p' = aqi_attrs p"
    by (simp add: p')
  have noise_noop: "missing_noises p' \<longrightarrow> set_noise_attrs C p' db_costs = p'"
    by (simp add: set_noise_attrs_def)
  have aqi_noop: "missing_aqi p' \<longrightarrow> set_aqi_attrs C p' = p'"
    by (simp add: set_aqi_attrs_def)
  show ?thesis
    using noise_flag aqi_flag noise_kept aqi_kept noise_noop aqi_noop by simp
qed

theorem missing_data_propagation_witness:
  "aggregate_path_attrs example_path = Inr path_aggregated \<and>
   missing_noises path_aggregated \<and>
   noise_attrs (set_noise_attrs example_collaborators path_aggregated ()) = None \<and>
   missing_aqi path_aggregated \<and>
   aqi_attrs (set_aqi_attrs example_collaborators path_aggregated) = None \<and>
   aggregate_path_attrs example_pair = Inr pair_aggregated \<and>
   missing_noises pair_aggregated = False \<and>
   missing_aqi pair_aggregated = False"
proof -
  note full = missing_data_propagation [OF path_aggregates, of example_collaborators "()"]
  note pair = missing_data_propagation [OF pair_aggregates, of example_collaborators "()"]
  have gaps: "\<exists>e \<in> set (edges example_path). noises e = None"
    "\<exists>e \<in> set (edges example_path). aqi e = None"
    by (simp_all add: example_path_def Path_init_def edge_a_def edge_b_def edge_c_def)
  have unset: "noise_attrs example_path = None" "aqi_attrs example_path = None"
    by (simp_all add: example_path_def Path_init_def)
  have complete: "(\<exists>e \<in> set (edges example_pair). noises e = None) = False"
    "(\<exists>e \<in> set (edges example_pair). aqi e = None) = False"
    by (simp_all add: example_pair_def Path_init_def edge_a_def edge_b_def)
  have "missing_noises path_aggregated"
    using full gaps(1) by blast
  moreover from this
  have "noise_attrs (set_noise_attrs example_collaborators path_aggregated ()) = None"
    using full unset(1) by blast
  moreover have "missing_aqi path_aggregated"
    using full gaps(2) by blast
  moreover from this
  have "aqi_attrs (set_aqi_attrs example_collaborators path_aggregated) = None"
    using full unset(2) by blast
  moreover have "missing_noises pair_aggregated = False"
    using pair complete(1) by blast
  moreover have "missing_aqi pair_aggregated = False"
    using pair complete(2) by blast
  ultimately show ?thesis using path_aggregates pair_aggregates by blast
qed

text \<open>
  C7. When \<open>aggregate_path_attrs\<close> returns, \<open>length\<close> and \<open>length_b\<close> are the float sum
  of the per-edge lengths, rounded once to two digits. Rounding each length before summing
  is a different function: some list of lengths gives another result.
\<close>

theorem length_rounded_once:
  assumes "aggregate_path_attrs p = Inr p'"
  shows "length_p p' = Some (py_round (py_sum (map length_e (edges p))) 2) \<and>
         length_b p' = Some (py_round (py_sum (map length_b_e (edges p))) 2) \<and>
         (\<exists>lengths. py_round (py_sum lengths) 2 \<noteq> py_sum (map (\<lambda>x. py_round x 2) lengths))"
proof -
  have "py_round (py_sum [float_lit (6908 / 1000), float_lit (239907 / 1000)]) 2 \<noteq>
      py_sum (map (\<lambda>x. py_round x 2) [float_lit (6908 / 1000), float_lit (239907 / 1000)])"
    by (simp add: float_eval)
  then have "\<exists>lengths. py_round (py_sum lengths) 2 \<noteq> py_sum (map (\<lambda>x. py_round x 2) lengths)"
    by blast
  then show ?thesis
    by (simp add: aggregate_path_attrs_Inr [OF assms])
qed

theorem length_rounded_once_witness:
  "aggregate_path_attrs example_pair = Inr pair_aggregated \<and>
   map length_e (edges example_pair) = [float_lit (6908 / 1000), float_lit (239907 / 1000)] \<and>
   length_p pair_aggregated = Some (float_lit (24681 / 100)) \<and>
   length_b pair_aggregated = Some (float_lit (75 / 100)) \<and>
   py_sum (map (\<lambda>e. py_round (length_e e) 2) (edges example_pair)) = float_lit (24682 / 100) \<and>
   float_lit (24682 / 100) \<noteq> float_lit (24681 / 100)"
proof -
  have lengths: "map length_e (edges example_pair) = [float_lit (6908 / 1000), float_lit (239907 / 1000)]"
    "map length_b_e (edges example_pair) = [Num (1 / 2), Num (1 / 4)]"
    by (simp_all add: example_pair_def edge_a_def edge_b_def)
  have once: "py_round (py_sum [float_lit (6908 / 1000), float_lit (239907 / 1000)]) 2 =
      float_lit (24681 / 100)"
    by (simp add: float_eval)
  have once_b: "py_round (py_sum [Num (1 / 2), Num (1 / 4)]) 2 = float_lit (75 / 100)"
    by (simp add: float_eval)
  have each: "py_sum (map (\<lambda>e. py_round (length_e e) 2) (edges example_pair)) =
      float_lit (24682 / 100)"
    by (simp add: example_pair_def edge_a_def edge_b_def float_eval)
  have differ: "float_lit (24682 / 100) \<noteq> float_lit (24681 / 100)"
    by (simp add: float_eval)
  from length_rounded_once [OF pair_aggregates] lengths once once_b each differ pair_aggregates
  show ?thesis by simp
qed

section \<open>Difference to the shortest path\<close>

text \<open>A positive divisor is not a zero, so the division by it does not raise.\<close>

lemma fdiv_positive: "gt_0 base \<Longrightarrow> \<exists>q. fdiv a base = Inr q"
  by (cases base) (simp_all add: fdiv_def)

lemma zero_not_positive: "is_zero base \<Longrightarrow> \<not> gt_0 base"
  by (cases base) simp_all

text \<open>
  The call returns when both lengths are known and the ratio is computed; the summaries'
  own difference methods do not touch \<open>len_diff\<close> and \<open>len_diff_rat\<close>.
\<close>

lemma green_path_diff_result:
  assumes "length_p self = Some own" "length_p shortest_path = Some base"
    "(if gt_0 base
      then (case fdiv (py_round (fsub own base) 1) base of
              Inl e \<Rightarrow> Inl e
            | Inr q \<Rightarrow> Inr (py_round (fmul q (Num 100)) 1))
      else Inr (Num 0)) = Inr rat"
  shows "\<exists>p'. set_green_path_diff_attrs C self shortest_path = Inr p' \<and>
           len_diff p' = py_round (fsub own base) 1 \<and> len_diff_rat p' = Some rat"
  using assms
  by (simp add: set_green_path_diff_attrs_def Let_def del: One_nat_def split: option.splits)

text \<open>
  C6. When both lengths are known, \<open>set_green_path_diff_attrs\<close> returns, with \<open>len_diff\<close>
  the float difference of the lengths rounded to one digit. When the baseline length is
  greater than \<open>0\<close>, the division \<open>len_diff / base\<close> does not raise and \<open>len_diff_rat\<close> is
  its quotient times \<open>100\<close>, rounded to one digit; when the baseline length is \<open>0\<close>,
  \<open>len_diff_rat\<close> is exactly \<open>0\<close> and no division error is raised.
\<close>

theorem green_path_diff_attrs:
  assumes "length_p self = Some own" "length_p shortest_path = Some base"
  shows "\<exists>p'. set_green_path_diff_attrs C self shortest_path = Inr p' \<and>
           len_diff p' = py_round (fsub own base) 1 \<and>
           (gt_0 base \<longrightarrow>
              (\<exists>q. fdiv (len_diff p') base = Inr q \<and>
                 len_diff_rat p' = Some (py_round (fmul q (Num 100)) 1))) \<and>
           (is_zero base \<longrightarrow> len_diff_rat p' = Some (Num 0))"
proof (cases "gt_0 base")
  case True
  then obtain q where q: "fdiv (py_round (fsub own base) 1) base = Inr q"
    using fdiv_positive by blast
  from True have nonzero: "\<not> is_zero base"
    using zero_not_positive by blast
  from True q have "(if gt_0 base
      then (case fdiv (py_round (fsub own base) 1) base of
              Inl e \<Rightarrow> Inl e
            | Inr q \<Rightarrow> Inr (py_round (fmul q (Num 100)) 1))
      else Inr (Num 0)) = Inr (py_round (fmul q (Num 100)) 1)"
    by simp
  from green_path_diff_result [OF assms this, of C] q nonzero show ?thesis
    by auto
next
  case False
  then have "(if gt_0 base
      then (case fdiv (py_round (fsub own base) 1) base of
              Inl e \<Rightarrow> Inl e
            | Inr q \<Rightarrow> Inr (py_round (fmul q (Num 100)) 1))
      else Inr (Num 0)) = Inr (Num 0)"
    by simp
  from green_path_diff_result [OF assms this, of C] False show ?thesis
    by auto
qed

theorem green_path_diff_attrs_witness:
  "(\<exists>p'. set_green_path_diff_attrs example_collaborators green_path short_path = Inr p' \<and>
         len_diff p' = float_lit (115 / 10) \<and> len_diff_rat p' = Some (float_lit (287 / 10))) \<and>
   (\<exists>p'. set_green_path_diff_attrs example_collaborators green_path zero_path = Inr p' \<and>
         len_diff p' = float_lit (515 / 10) \<and> len_diff_rat p' = Some (Num 0))"
proof -
  have lengths: "length_p green_path = Some (Num (103 / 2))" "length_p short_path = Some (Num 40)"
    "length_p zero_path = Some (Num 0)"
    by (simp_all add: green_path_def short_path_def zero_path_def)
  have diff: "py_round (fsub (Num (103 / 2)) (Num 40)) 1 = float_lit (115 / 10)"
    "py_round (fsub (Num (103 / 2)) (Num 0)) 1 = float_lit (515 / 10)"
    by (simp_all add: float_eval)
  have quotient: "fdiv (float_lit (115 / 10)) (Num 40) = Inr (float_lit (2875 / 10000))"
    by (simp add: float_eval)
  have percent: "py_round (fmul (float_lit (2875 / 10000)) (Num 100)) 1 = float_lit (287 / 10)"
    by (simp add: float_eval)
  have positive: "gt_0 (Num 40)" and zero: "is_zero (Num 0)" by simp_all
  from green_path_diff_attrs [OF lengths(1) lengths(2), of example_collaborators]
  have first: "\<exists>p'. set_green_path_diff_attrs example_collaborators green_path short_path = Inr p' \<and>
         len_diff p' = float_lit (115 / 10) \<and> len_diff_rat p' = Some (float_lit (287 / 10))"
    using diff(1) quotient percent positive by auto
  from green_path_diff_attrs [OF lengths(1) lengths(3), of example_collaborators]
  have "\<exists>p'. set_green_path_diff_attrs example_collaborators green_path zero_path = Inr p' \<and>
         len_diff p' = float_lit (515 / 10) \<and> len_diff_rat p' = Some (Num 0)"
    using diff(2) zero by auto
  with first show ?thesis by blast
qed

section \<open>The GeoJSON feature of a path\<close>

text \<open>
  No method other than \<open>set_green_path_diff_attrs\<close> assigns \<open>len_diff\<close> or
  \<open>len_diff_rat\<close>: they keep the values \<open>__init__\<close> gave them.
\<close>

lemma no_diff_call_defaults:
  "no_diff_call C p \<Longrightarrow> len_diff p = Num 0 \<and> len_diff_rat p = None"
proof (induction rule: no_diff_call.induct)
  case (constructed orig_node' edge_ids' name' path_type' cost_coeff')
  show ?case by (simp add: Path_init_def)
next
  case (named p path_name)
  then show ?case by (simp add: set_path_name_def)
next
  case (typed p path_type')
  then show ?case by (simp add: set_path_type_def)
next
  case (resolved p G p')
  then show ?case by (auto simp: set_path_edges_def split: sum.splits)
next
  case (aggregated p p')
  note p' = aggregate_path_attrs_Inr [OF aggregated.hyps(2)]
  have "len_diff p' = len_diff p" "len_diff_rat p' = len_diff_rat p"
    by (simp_all add: p')
  with aggregated.IH show ?case by simp
next
  case (noise_set p db_costs)
  then show ?case by (simp add: set_noise_attrs_def Let_def)
next
  case (aqi_set p)
  then show ?case by (simp add: set_aqi_attrs_def Let_def)
next
  case (grouped p aq noise p')
  then show ?case
    by (auto simp: aggregate_edge_groups_by_attr_def split: if_splits prod.splits)
qed

text \<open>
  The feature carries the path's \<open>len_diff_rat\<close>, provided the property dictionaries of
  the two summaries do not use that key (a later dictionary of the merge would win).
\<close>

lemma feature_len_diff_rat:
  assumes "get_as_geojson_feature C p = Inr f"
    "\<forall>n. noise_attrs p = Some n \<longrightarrow> get_noise_props_dict C n ''len_diff_rat'' = None"
    "\<forall>a. aqi_attrs p = Some a \<longrightarrow> get_aqi_props_dict C a ''len_diff_rat'' = None"
  shows "properties f ''len_diff_rat'' = Some (opt_num (len_diff_rat p))"
proof -
  let ?noise_props =
    "case noise_attrs p of Some n \<Rightarrow> get_noise_props_dict C n | None \<Rightarrow> Map.empty"
  let ?aqi_props =
    "case aqi_attrs p of Some a \<Rightarrow> get_aqi_props_dict C a | None \<Rightarrow> Map.empty"
  from assms(1) obtain lb where lb: "length_b p = Some lb"
    by (cases "length_b p") (simp_all add: get_as_geojson_feature_def Let_def)
  from assms(1) lb obtain props where
    f: "properties f = (props(''len_diff_rat'' \<mapsto> opt_num (len_diff_rat p),
          ''cost_coeff'' \<mapsto> PNum (cost_coeff p),
          ''missing_aqi'' \<mapsto> PBool (missing_aqi p),
          ''missing_noises'' \<mapsto> PBool (missing_noises p))) ++ ?noise_props ++ ?aqi_props"
    by (auto simp: get_as_geojson_feature_def Let_def)
  have "?noise_props ''len_diff_rat'' = None"
    using assms(2) by (simp split: option.splits)
  moreover have "?aqi_props ''len_diff_rat'' = None"
    using assms(3) by (simp split: option.splits)
  ultimately show ?thesis
    unfolding f by (simp add: map_add_def)
qed

text \<open>
  The two-edge example path is what \<open>set_path_edges\<close> gives on the example graph. Right
  after construction \<open>length_b\<close> does not exist yet and the export raises.
\<close>

lemma example_pair_resolved:
  "set_path_edges (Path_init 7 [11, 12] ''short'' (PathType ''short'') (Num 0)) example_graph =
     Inr example_pair"
  by (simp add: set_path_edges_def example_graph_def example_pair_def Path_init_def)

lemma feature_before_aggregation:
  "get_as_geojson_feature C (Path_init orig_node' edge_ids' name' path_type' cost_coeff') =
     Inl AttributeError"
  by (simp add: get_as_geojson_feature_def Path_init_def Let_def)

text \<open>
  C10. After construction \<open>len_diff\<close> is \<open>0\<close> and \<open>len_diff_rat\<close> is \<open>None\<close>, and they
  stay so as long as \<open>set_green_path_diff_attrs\<close> is not called; the feature that
  \<open>get_as_geojson_feature\<close> then returns has \<open>None\<close> as its \<open>len_diff_rat\<close> property
  (the summaries' property dictionaries not using that key).
\<close>

theorem len_diff_rat_none_emitted:
  assumes "no_diff_call C p"
  shows "len_diff p = Num 0 \<and> len_diff_rat p = None \<and>
         (\<forall>f. get_as_geojson_feature C p = Inr f \<and>
              (\<forall>n. noise_attrs p = Some n \<longrightarrow> get_noise_props_dict C n ''len_diff_rat'' = None) \<and>
              (\<forall>a. aqi_attrs p = Some a \<longrightarrow> get_aqi_props_dict C a ''len_diff_rat'' = None) \<longrightarrow>
              properties f ''len_diff_rat'' = Some PNone)"
proof -
  from assms have defaults: "len_diff p = Num 0 \<and> len_diff_rat p = None"
    by (rule no_diff_call_defaults)
  then have "opt_num (len_diff_rat p) = PNone" by (simp add: opt_num_def)
  with defaults feature_len_diff_rat [of C p] show ?thesis by metis
qed

theorem len_diff_rat_none_emitted_witness:
  "len_diff example_route = Num 0 \<and> len_diff_rat example_route = None \<and>
   noise_attrs example_route = Some 2 \<and>
   (\<exists>f. get_as_geojson_feature example_collaborators example_route = Inr f \<and>
        properties f ''len_diff_rat'' = Some PNone \<and>
        properties f ''mdB'' = Some (PNum (Num 2)))"
proof -
  have "no_diff_call example_collaborators
          (Path_init 7 [11, 12] ''short'' (PathType ''short'') (Num 0) :: (nat, nat) Path)"
    by (rule no_diff_call.constructed)
  then have "no_diff_call example_collaborators example_pair"
    using example_pair_resolved by (rule no_diff_call.resolved)
  then have "no_diff_call example_collaborators pair_aggregated"
    using pair_aggregates by (rule no_diff_call.aggregated)
  then have reach: "no_diff_call example_collaborators example_route"
    unfolding example_route_def
    by (intro no_diff_call.aqi_set no_diff_call.noise_set)
  have attrs: "noise_attrs example_route = Some 2" "aqi_attrs example_route = Some 2"
    by (simp_all add: example_route_def set_aqi_attrs_def set_noise_attrs_def
        pair_aggregated_def example_pair_def Path_init_def
        edge_a_def edge_b_def example_collaborators_def)
  have "length_b example_route = Some (Num (3 / 4))"
    by (simp add: example_route_def set_aqi_attrs_def set_noise_attrs_def pair_aggregated_def)
  then obtain f where
    f: "get_as_geojson_feature example_collaborators example_route = Inr f"
    by (simp add: get_as_geojson_feature_def Let_def)
  then have mdB: "properties f ''mdB'' = Some (PNum (Num 2))"
    by (auto simp: get_as_geojson_feature_def Let_def attrs example_collaborators_def
        map_add_def split: option.splits)
  have "\<forall>n. noise_attrs example_route = Some n \<longrightarrow>
          get_noise_props_dict example_collaborators n ''len_diff_rat'' = None"
    "\<forall>a. aqi_attrs example_route = Some a \<longrightarrow>
          get_aqi_props_dict example_collaborators a ''len_diff_rat'' = None"
    by (simp_all add: example_collaborators_def)
  with len_diff_rat_none_emitted [OF reach] f mdB attrs(1) show ?thesis
    by blast
qed

end
